theory Spec2Isabelle
  imports Complex_Main
begin

section \<open>Floating-point values\<close>

text \<open>
  The numbers of the program are IEEE 754 doubles (Python \<^verbatim>\<open>float\<close>, numpy
  \<^verbatim>\<open>float64\<close>). The model keeps everything the properties below depend on: the
  special values (both infinities, NaN, the negative zero) and the rules by which the
  arithmetic produces and propagates them. A finite value is held as the real number
  it denotes and finite arithmetic is exact: rounding to 53 bits, overflow and
  underflow are not part of the model. \<open>Fin 0\<close> is the positive zero.
\<close>

datatype float64 = Fin real | NegZero | PInf | NInf | NaN

fun is_nan :: "float64 \<Rightarrow> bool" where
  "is_nan NaN = True"
| "is_nan _ = False"

fun is_inf :: "float64 \<Rightarrow> bool" where
  "is_inf PInf = True"
| "is_inf NInf = True"
| "is_inf _ = False"

fun valof :: "float64 \<Rightarrow> real" where
  "valof (Fin x) = x"
| "valof _ = 0"

fun is_finite :: "float64 \<Rightarrow> bool" where
  "is_finite (Fin x) = True"
| "is_finite NegZero = True"
| "is_finite _ = False"

definition is_zero :: "float64 \<Rightarrow> bool" where
  "is_zero a = (is_finite a \<and> valof a = 0)"

fun signbit :: "float64 \<Rightarrow> bool" where
  "signbit (Fin x) = (x < 0)"
| "signbit NegZero = True"
| "signbit PInf = False"
| "signbit NInf = True"
| "signbit NaN = False"

definition zerosign :: "bool \<Rightarrow> real \<Rightarrow> float64" where
  \<comment> \<open>a finite result; when it is zero the flag gives the zero's sign\<close>
  "zerosign neg r = (if r = 0 \<and> neg then NegZero else Fin r)"

definition inf_of :: "bool \<Rightarrow> float64" where
  "inf_of neg = (if neg then NInf else PInf)"

definition fneg :: "float64 \<Rightarrow> float64" where
  "fneg a = (case a of
       Fin x \<Rightarrow> zerosign True (- x)
     | NegZero \<Rightarrow> Fin 0
     | PInf \<Rightarrow> NInf
     | NInf \<Rightarrow> PInf
     | NaN \<Rightarrow> NaN)"

definition fadd :: "float64 \<Rightarrow> float64 \<Rightarrow> float64" where
  "fadd a b =
     (if is_nan a \<or> is_nan b \<or> (is_inf a \<and> is_inf b \<and> signbit a \<noteq> signbit b) then NaN
      else if is_inf a then a
      else if is_inf b then b
      else zerosign (a = NegZero \<and> b = NegZero) (valof a + valof b))"

definition fsub :: "float64 \<Rightarrow> float64 \<Rightarrow> float64" where
  "fsub a b = fadd a (fneg b)"

definition fmul :: "float64 \<Rightarrow> float64 \<Rightarrow> float64" where
  "fmul a b =
     (if is_nan a \<or> is_nan b \<or> (is_inf a \<and> is_zero b) \<or> (is_zero a \<and> is_inf b) then NaN
      else if is_inf a \<or> is_inf b then inf_of (signbit a \<noteq> signbit b)
      else zerosign (signbit a \<noteq> signbit b) (valof a * valof b))"

definition fdiv :: "float64 \<Rightarrow> float64 \<Rightarrow> float64" where
  \<comment> \<open>numpy division: a zero divisor gives an infinity or NaN, never an exception\<close>
  "fdiv a b =
     (if is_nan a \<or> is_nan b \<or> (is_zero a \<and> is_zero b) \<or> (is_inf a \<and> is_inf b) then NaN
      else if is_inf a \<or> is_zero b then inf_of (signbit a \<noteq> signbit b)
      else if is_inf b then zerosign (signbit a \<noteq> signbit b) 0
      else zerosign (signbit a \<noteq> signbit b) (valof a / valof b))"

definition fsqrt :: "float64 \<Rightarrow> float64" where
  "fsqrt a = (case a of
       Fin x \<Rightarrow> (if x < 0 then NaN else Fin (sqrt x))
     | NegZero \<Rightarrow> NegZero
     | PInf \<Rightarrow> PInf
     | NInf \<Rightarrow> NaN
     | NaN \<Rightarrow> NaN)"


text \<open>Comparisons: every comparison with NaN is false; the two zeros are equal.\<close>

definition flt :: "float64 \<Rightarrow> float64 \<Rightarrow> bool" where
  "flt a b =
     (if is_nan a \<or> is_nan b then False
      else if a = NInf then b \<noteq> NInf
      else if b = PInf then a \<noteq> PInf
      else if a = PInf \<or> b = NInf then False
      else valof a < valof b)"

definition feq :: "float64 \<Rightarrow> float64 \<Rightarrow> bool" where
  "feq a b =
     (if is_nan a \<or> is_nan b then False
      else if is_inf a \<or> is_inf b then a = b
      else valof a = valof b)"

definition fle :: "float64 \<Rightarrow> float64 \<Rightarrow> bool" where
  "fle a b = (flt a b \<or> feq a b)"

definition fgt :: "float64 \<Rightarrow> float64 \<Rightarrow> bool" where
  "fgt a b = flt b a"

definition fge :: "float64 \<Rightarrow> float64 \<Rightarrow> bool" where
  "fge a b = fle b a"

section \<open>Series operations\<close>

text \<open>
  A pandas \<^verbatim>\<open>Series\<close> of floats is a list, the position being the index. The
  operations below are the pandas methods the program calls, with their defaults:
  NaN marks a missing value, reductions skip it, and a rolling window with fewer than
  \<open>window\<close> observations gives NaN. Each window is reduced on its own.
\<close>

type_synonym series = "float64 list"

datatype py_error =
  IndexError | ZeroDivisionError | OverflowError | ValueError | TypeError | ProviderError string

definition iloc :: "'a list \<Rightarrow> int \<Rightarrow> py_error + 'a" where
  \<comment> \<open>\<^verbatim>\<open>s.iloc[i]\<close>: a negative position counts from the end\<close>
  "iloc xs i =
     (if 0 \<le> i \<and> i < int (length xs) then Inr (xs ! nat i)
      else if i < 0 \<and> - i \<le> int (length xs) then Inr (xs ! (length xs - nat (- i)))
      else Inl IndexError)"

definition dropna :: "series \<Rightarrow> series" where
  "dropna xs = filter (\<lambda>x. \<not> is_nan x) xs"

definition fsum :: "series \<Rightarrow> float64" where
  "fsum xs = foldl fadd (Fin 0) xs"

definition sample_std :: "series \<Rightarrow> float64" where
  \<comment> \<open>standard deviation with one degree of freedom removed, of values without NaN\<close>
  "sample_std ys =
     (let n = length ys in
      if n \<le> 1 then NaN
      else let m = fdiv (fsum ys) (Fin (real n));
               sq = map (\<lambda>y. fmul (fsub y m) (fsub y m)) ys
           in fsqrt (fdiv (fsum sq) (Fin (real (n - 1)))))"

definition series_mean :: "series \<Rightarrow> float64" where
  \<comment> \<open>\<^verbatim>\<open>Series.mean()\<close>\<close>
  "series_mean xs =
     (let ys = dropna xs in if ys = [] then NaN else fdiv (fsum ys) (Fin (real (length ys))))"

definition series_std :: "series \<Rightarrow> float64" where
  \<comment> \<open>\<^verbatim>\<open>Series.std()\<close>\<close>
  "series_std xs = sample_std (dropna xs)"

definition fmin2 :: "float64 \<Rightarrow> float64 \<Rightarrow> float64" where
  "fmin2 a b = (if flt b a then b else a)"

definition fmax2 :: "float64 \<Rightarrow> float64 \<Rightarrow> float64" where
  "fmax2 a b = (if flt a b then b else a)"

definition series_min :: "series \<Rightarrow> float64" where
  \<comment> \<open>\<^verbatim>\<open>Series.min()\<close>\<close>
  "series_min xs = (case dropna xs of [] \<Rightarrow> NaN | y # ys \<Rightarrow> foldl fmin2 y ys)"

definition series_max :: "series \<Rightarrow> float64" where
  "series_max xs = (case dropna xs of [] \<Rightarrow> NaN | y # ys \<Rightarrow> foldl fmax2 y ys)"

definition expanding_max :: "series \<Rightarrow> series" where
  \<comment> \<open>\<^verbatim>\<open>s.expanding().max()\<close>: at each position the maximum so far\<close>
  "expanding_max xs = map (\<lambda>i. series_max (take (Suc i) xs)) [0..<length xs]"

definition trailing :: "nat \<Rightarrow> nat \<Rightarrow> series \<Rightarrow> series option" where
  \<comment> \<open>the window of \<open>w\<close> values that ends at position \<open>i\<close>, when it is complete\<close>
  "trailing w i xs =
     (if Suc i < w then None
      else let win = take w (drop (Suc i - w) xs)
           in if list_ex is_nan win then None else Some win)"

definition rolling_mean :: "nat \<Rightarrow> series \<Rightarrow> series" where
  \<comment> \<open>\<^verbatim>\<open>s.rolling(window=w).mean()\<close>\<close>
  "rolling_mean w xs =
     map (\<lambda>i. case trailing w i xs of
                 None \<Rightarrow> NaN
               | Some win \<Rightarrow> fdiv (fsum win) (Fin (real w))) [0..<length xs]"

definition rolling_std :: "nat \<Rightarrow> series \<Rightarrow> series" where
  \<comment> \<open>\<^verbatim>\<open>s.rolling(window=w).std()\<close>\<close>
  "rolling_std w xs =
     map (\<lambda>i. case trailing w i xs of
                 None \<Rightarrow> NaN
               | Some win \<Rightarrow> sample_std win) [0..<length xs]"

definition shift :: "series \<Rightarrow> series" where
  \<comment> \<open>\<^verbatim>\<open>s.shift(1)\<close>\<close>
  "shift xs = (if xs = [] then [] else NaN # butlast xs)"

definition diff :: "series \<Rightarrow> series" where
  \<comment> \<open>\<^verbatim>\<open>s.diff()\<close>\<close>
  "diff xs = map2 fsub xs (shift xs)"

definition pct_change :: "series \<Rightarrow> series" where
  \<comment> \<open>\<^verbatim>\<open>s.pct_change()\<close>, without filling of missing values\<close>
  "pct_change xs = map2 (\<lambda>cur prev. fsub (fdiv cur prev) (Fin 1)) xs (shift xs)"

section \<open>utils.py\<close>

subsection \<open>Strings and the regular expression of \<open>validate_symbol\<close>\<close>

text \<open>
  A Python \<^verbatim>\<open>str\<close> is modelled as a list of 8-bit characters; \<open>strip\<close> and
  \<open>upper\<close> are the ASCII behaviour of \<^verbatim>\<open>str.strip()\<close> and \<^verbatim>\<open>str.upper()\<close>
  (code points beyond ASCII, where Python follows the Unicode tables, are left
  unchanged here).
\<close>

definition is_space :: "char \<Rightarrow> bool" where
  \<comment> \<open>the ASCII characters for which \<^verbatim>\<open>str.isspace()\<close> holds\<close>
  "is_space c = ((of_char c :: nat) \<in> {9, 10, 11, 12, 13, 28, 29, 30, 31, 32})"

definition strip :: "string \<Rightarrow> string" where
  "strip s = rev (dropWhile is_space (rev (dropWhile is_space s)))"

definition upper_char :: "char \<Rightarrow> char" where
  "upper_char c =
     (if (97::nat) \<le> of_char c \<and> (of_char c :: nat) \<le> 122 then char_of (of_char c - (32::nat)) else c)"

definition upper :: "string \<Rightarrow> string" where
  "upper s = map upper_char s"










subsection \<open>Formatting\<close>











subsection \<open>Summary statistics\<close>

definition calculate_returns :: "series \<Rightarrow> series" where
  "calculate_returns prices = (if prices = [] then [] else dropna (pct_change prices))"

definition calculate_volatility :: "series \<Rightarrow> int \<Rightarrow> float64" where
  "calculate_volatility returns periods =
     (if returns = [] then NaN
      else fmul (series_std returns) (fsqrt (Fin (of_int periods))))"

definition py_truediv :: "float64 \<Rightarrow> float64 \<Rightarrow> py_error + float64" where
  \<comment> \<open>division of Python's own numbers raises on a zero divisor\<close>
  "py_truediv a b = (if is_zero b then Inl ZeroDivisionError else Inr (fdiv a b))"

definition calculate_sharpe_ratio :: "series \<Rightarrow> float64 \<Rightarrow> int \<Rightarrow> py_error + float64" where
  "calculate_sharpe_ratio returns risk_free_rate periods =
     (if returns = [] then Inr NaN
      else case py_truediv risk_free_rate (Fin (of_int periods)) of
             Inl e \<Rightarrow> Inl e
           | Inr daily \<Rightarrow>
               let excess_returns = map (\<lambda>r. fsub r daily) returns
               in Inr (fmul (fdiv (series_mean excess_returns) (series_std returns))
                            (fsqrt (Fin (of_int periods)))))"

definition calculate_max_drawdown :: "series \<Rightarrow> float64" where
  "calculate_max_drawdown prices =
     (if prices = [] then NaN
      else let running_max = expanding_max prices;
               drawdown = map2 (\<lambda>p m. fdiv (fsub p m) m) prices running_max
           in series_min drawdown)"

definition determine_trend :: "series \<Rightarrow> int \<Rightarrow> py_error + string" where
  "determine_trend prices window =
     (if int (length prices) < window then Inr ''Insufficient Data''
      else if window < 0 then Inl ValueError
      else let ma = rolling_mean (nat window) prices in
        case iloc ma (- 1) of
          Inl e \<Rightarrow> Inl e
        | Inr current_ma \<Rightarrow>
           (case iloc ma ((- window) div 2) of
              Inl e \<Rightarrow> Inl e
            | Inr previous_ma \<Rightarrow>
                if is_nan current_ma \<or> is_nan previous_ma then Inr ''Insufficient Data''
                else let change_pct = fmul (fdiv (fsub current_ma previous_ma) previous_ma) (Fin 100)
                     in if fgt change_pct (Fin 2) then Inr ''Upward''
                        else if flt change_pct (Fin (- 2)) then Inr ''Downward''
                        else Inr ''Sideways''))"

section \<open>stock_analyzer.py\<close>

subsection \<open>The market-data source\<close>

text \<open>
  The program reads its data through the \<^verbatim>\<open>yfinance\<close> package. The source is a
  parameter of the model: \<open>yf symbol\<close> is what \<^verbatim>\<open>yf.Ticker(symbol)\<close> does, and
  each attribute of a ticker either raises or returns its value. A
  \<^verbatim>\<open>DataFrame\<close> is the list of its rows; it is empty when the list is.
\<close>

datatype pyval = VNone | VFloat float64 | VInt int | VStr string

record price_row =
  p_open :: float64
  p_high :: float64
  p_low :: float64
  p_close :: float64
  p_volume :: float64

type_synonym frame = "price_row list"

type_synonym table = "(string \<times> series) list"

type_synonym info_dict = "(string \<times> pyval) list"

record ticker =
  info :: "py_error + info_dict option"
  history :: "string \<Rightarrow> py_error + frame"
  quarterly_financials :: "py_error + table"
  balance_sheet :: "py_error + table"
  cashflow :: "py_error + table"

type_synonym source = "string \<Rightarrow> py_error + ticker"

definition row_at :: "float64 \<Rightarrow> price_row" where
  \<comment> \<open>a day on which every price is \<open>c\<close>\<close>
  "row_at c = \<lparr>p_open = c, p_high = c, p_low = c, p_close = c, p_volume = Fin 0\<rparr>"

definition col_close :: "frame \<Rightarrow> series" where
  \<comment> \<open>\<^verbatim>\<open>history['Close']\<close>\<close>
  "col_close h = map p_close h"

definition dict_set :: "('k \<times> 'v) list \<Rightarrow> 'k \<Rightarrow> 'v \<Rightarrow> ('k \<times> 'v) list" where
  \<comment> \<open>\<^verbatim>\<open>d[k] = v\<close> on a dict in insertion order\<close>
  "dict_set d k v =
     (if k \<in> fst ` set d then map (\<lambda>(k', v'). if k' = k then (k', v) else (k', v')) d
      else d @ [(k, v)])"

definition str_of_error :: "py_error \<Rightarrow> string" where
  \<comment> \<open>\<^verbatim>\<open>str(e)\<close>\<close>
  "str_of_error e = (case e of ProviderError m \<Rightarrow> m | _ \<Rightarrow> [])"

subsection \<open>\<open>get_stock_data\<close>\<close>

record stock_data =
  sd_info :: info_dict
  sd_history :: frame
  sd_financials :: "(string \<times> table) list"
  sd_symbol :: string

definition get_financial_data :: "ticker \<Rightarrow> (string \<times> table) list" where
  \<comment> \<open>one \<^verbatim>\<open>try\<close> around the three reads: the first that raises ends them, and what
      was stored before it is returned\<close>
  "get_financial_data t =
     (case quarterly_financials t of
        Inl e \<Rightarrow> []
      | Inr qf \<Rightarrow>
          let d1 = (if qf \<noteq> [] then dict_set [] ''quarterly_financials'' qf else []) in
          (case balance_sheet t of
             Inl e \<Rightarrow> d1
           | Inr bs \<Rightarrow>
               let d2 = (if bs \<noteq> [] then dict_set d1 ''balance_sheet'' bs else d1) in
               (case cashflow t of
                  Inl e \<Rightarrow> d2
                | Inr cf \<Rightarrow> (if cf \<noteq> [] then dict_set d2 ''cashflow'' cf else d2))))"

definition fetch_error :: "string \<Rightarrow> py_error \<Rightarrow> string" where
  "fetch_error symbol e = ''Error fetching data for '' @ symbol @ '': '' @ str_of_error e"

definition get_stock_data :: "source \<Rightarrow> string \<Rightarrow> string \<Rightarrow> stock_data option \<times> string list" where
  \<comment> \<open>the result, \<open>None\<close> for Python's \<^verbatim>\<open>None\<close>, and the messages shown by
      \<^verbatim>\<open>st.error\<close>\<close>
  "get_stock_data yf symbol period =
     (case yf symbol of
        Inl e \<Rightarrow> (None, [fetch_error symbol e])
      | Inr t \<Rightarrow>
         (case info t of
            Inl e \<Rightarrow> (None, [fetch_error symbol e])
          | Inr reply \<Rightarrow>
             (case reply of
                None \<Rightarrow> (None, [])
              | Some d \<Rightarrow>
                  if d = [] \<or> map_of d ''symbol'' = None then (None, [])
                  else (case history t period of
                          Inl e \<Rightarrow> (None, [fetch_error symbol e])
                        | Inr h \<Rightarrow>
                            if h = [] then (None, [])
                            else (Some \<lparr>sd_info = d, sd_history = h,
                                        sd_financials = get_financial_data t,
                                        sd_symbol = upper symbol\<rparr>, [])))))"

subsection \<open>\<open>get_market_summary\<close>\<close>

record index_entry =
  current :: float64
  change :: float64
  change_pct :: float64

definition indices :: "(string \<times> string) list" where
  "indices = [(''S&P 500'', ''^GSPC''), (''Dow Jones'', ''^DJI''),
              (''NASDAQ'', ''^IXIC''), (''Russell 2000'', ''^RUT'')]"

definition index_quote :: "source \<Rightarrow> string \<Rightarrow> py_error + index_entry option" where
  \<comment> \<open>the body of the \<^verbatim>\<open>try\<close>: \<open>Inl\<close> when it raises, \<open>Inr None\<close> when the history
      is empty and nothing is stored, \<open>Inr (Some e)\<close> when \<open>e\<close> is stored\<close>
  "index_quote yf symbol =
     (case yf symbol of
        Inl e \<Rightarrow> Inl e
      | Inr t \<Rightarrow>
         (case history t ''2d'' of
            Inl e \<Rightarrow> Inl e
          | Inr hist \<Rightarrow>
              if hist = [] then Inr None
              else (case iloc (col_close hist) (- 1) of
                      Inl e \<Rightarrow> Inl e
                    | Inr cur \<Rightarrow>
                       (case (if length hist > 1 then iloc (col_close hist) (- 2) else Inr cur) of
                          Inl e \<Rightarrow> Inl e
                        | Inr previous \<Rightarrow>
                            let chg = fsub cur previous;
                                pct = fmul (fdiv chg previous) (Fin 100)
                            in Inr (Some \<lparr>current = cur, change = chg, change_pct = pct\<rparr>)))))"

fun summary_loop ::
  "source \<Rightarrow> (string \<times> string) list \<Rightarrow> (string \<times> index_entry) list \<Rightarrow> (string \<times> index_entry) list"
where
  "summary_loop yf [] market_data = market_data"
| "summary_loop yf ((name, symbol) # rest) market_data =
     (case index_quote yf symbol of
        Inl e \<Rightarrow> summary_loop yf rest market_data
      | Inr None \<Rightarrow> summary_loop yf rest market_data
      | Inr (Some entry) \<Rightarrow> summary_loop yf rest (dict_set market_data name entry))"

definition get_market_summary :: "source \<Rightarrow> (string \<times> index_entry) list" where
  "get_market_summary yf = summary_loop yf indices []"

subsection \<open>\<open>calculate_technical_indicators\<close>\<close>

text \<open>
  The result is the dict of indicator series. Of its entries the moving averages, the
  RSI and the Bollinger bands are modelled; the exponential averages and the MACD,
  computed between them, cannot raise on a float column and no property below reads
  them.
\<close>

definition where_or_zero :: "(float64 \<Rightarrow> bool) \<Rightarrow> series \<Rightarrow> series" where
  \<comment> \<open>\<^verbatim>\<open>s.where(cond, 0)\<close>\<close>
  "where_or_zero cond xs = map (\<lambda>x. if cond x then x else Fin 0) xs"

definition rsi_gain :: "series \<Rightarrow> series" where
  "rsi_gain closes = rolling_mean 14 (where_or_zero (\<lambda>d. fgt d (Fin 0)) (diff closes))"

definition rsi_loss :: "series \<Rightarrow> series" where
  "rsi_loss closes = rolling_mean 14 (map fneg (where_or_zero (\<lambda>d. flt d (Fin 0)) (diff closes)))"

definition rsi_value :: "float64 \<Rightarrow> float64 \<Rightarrow> float64" where
  \<comment> \<open>\<^verbatim>\<open>rs = gain / loss\<close>, then \<^verbatim>\<open>100 - (100 / (1 + rs))\<close>\<close>
  "rsi_value gain loss = fsub (Fin 100) (fdiv (Fin 100) (fadd (Fin 1) (fdiv gain loss)))"

definition rsi_series :: "series \<Rightarrow> series" where
  "rsi_series closes = map2 rsi_value (rsi_gain closes) (rsi_loss closes)"

definition calculate_technical_indicators :: "frame \<Rightarrow> (string \<times> series) list" where
  "calculate_technical_indicators hist =
     (if hist = [] then []
      else let closes = col_close hist;
               i1 = dict_set [] ''SMA_20'' (rolling_mean 20 closes);
               i2 = dict_set i1 ''SMA_50'' (rolling_mean 50 closes);
               i3 = dict_set i2 ''SMA_200'' (rolling_mean 200 closes);
               i4 = dict_set i3 ''RSI'' (rsi_series closes);
               sma_20 = rolling_mean 20 closes;
               std_20 = rolling_std 20 closes;
               i5 = dict_set i4 ''Bollinger_Upper'' (map2 fadd sma_20 (map (\<lambda>s. fmul s (Fin 2)) std_20));
               i6 = dict_set i5 ''Bollinger_Lower'' (map2 fsub sma_20 (map (\<lambda>s. fmul s (Fin 2)) std_20))
           in i6)"

subsection \<open>Sample sources\<close>

text \<open>Concrete sources on which the theorems below are instantiated.\<close>

definition offline :: source where
  \<comment> \<open>every lookup fails\<close>
  "offline symbol = Inl (ProviderError ''timed out'')"

definition ticker_of :: "frame \<Rightarrow> ticker" where
  \<comment> \<open>a ticker that answers every period with the given history\<close>
  "ticker_of h =
     \<lparr>info = Inr (Some [(''symbol'', VStr ''X'')]), history = (\<lambda>period. Inr h),
      quarterly_financials = Inr [], balance_sheet = Inr [], cashflow = Inr []\<rparr>"

definition single_row :: "float64 \<Rightarrow> source" where
  \<comment> \<open>every symbol has a history of one row, with close \<open>c\<close>\<close>
  "single_row c symbol = Inr (ticker_of [row_at c])"

definition mixed_source :: source where
  \<comment> \<open>two rows for the S&P 500, a failure for the Dow Jones, an empty history for the
      NASDAQ and one row for the Russell 2000\<close>
  "mixed_source symbol =
     (if symbol = ''^GSPC'' then Inr (ticker_of [row_at (Fin 5000), row_at (Fin 5050)])
      else if symbol = ''^DJI'' then Inl (ProviderError ''timed out'')
      else if symbol = ''^IXIC'' then Inr (ticker_of [])
      else Inr (ticker_of [row_at (Fin 2000)]))"

subsection \<open>Sample price series\<close>




subsection \<open>The drawdown of each day, as a real number\<close>

definition drawdowns :: "real list \<Rightarrow> real list" where
  \<comment> \<open>for finite positive prices: each price against the highest price so far\<close>
  "drawdowns ps =
     map (\<lambda>i. (ps ! i - Max (set (take (Suc i) ps))) / Max (set (take (Suc i) ps)))
       [0..<length ps]"

subsection \<open>Sample frames\<close>

definition frame_of_closes :: "real list \<Rightarrow> frame" where
  \<comment> \<open>a history with the given closing prices\<close>
  "frame_of_closes cs = map (\<lambda>c. row_at (Fin c)) cs"

definition steady_frame :: frame where
  \<comment> \<open>twenty days at the price 5\<close>
  "steady_frame = frame_of_closes (replicate 20 5)"


section \<open>Properties of the arithmetic\<close>

lemma zerosign_False [simp]: "zerosign False r = Fin r"
  by (simp add: zerosign_def)

lemma fadd_Fin [simp]: "fadd (Fin x) (Fin y) = Fin (x + y)"
  by (simp add: fadd_def)

lemma fsub_Fin [simp]: "fsub (Fin x) (Fin y) = Fin (x - y)"
  by (simp add: fsub_def fneg_def fadd_def zerosign_def)

lemma fdiv_Fin_pos [simp]: "0 < y \<Longrightarrow> fdiv (Fin x) (Fin y) = Fin (x / y)"
  by (auto simp: fdiv_def is_zero_def zerosign_def)

lemma fmul_Fin_nonneg [simp]: "0 \<le> x \<Longrightarrow> 0 \<le> y \<Longrightarrow> fmul (Fin x) (Fin y) = Fin (x * y)"
  by (auto simp: fmul_def is_zero_def zerosign_def)

lemma flt_Fin [simp]: "flt (Fin x) (Fin y) = (x < y)"
  by (simp add: flt_def)

lemma fgt_Fin [simp]: "fgt (Fin x) (Fin y) = (y < x)"
  by (simp add: fgt_def)

lemma feq_Fin [simp]: "feq (Fin x) (Fin y) = (x = y)"
  by (simp add: feq_def)

lemma fle_Fin [simp]: "fle (Fin x) (Fin y) = (x \<le> y)"
  by (auto simp add: fle_def)

lemma fge_Fin [simp]: "fge (Fin x) (Fin y) = (y \<le> x)"
  by (simp add: fge_def)

section \<open>Series lemmas\<close>

lemma length_shift [simp]: "length (shift xs) = length xs"
  by (cases xs rule: rev_cases) (simp_all add: shift_def)

lemma length_diff [simp]: "length (diff xs) = length xs"
  by (simp add: diff_def)

lemma length_rolling_mean [simp]: "length (rolling_mean w xs) = length xs"
  by (simp add: rolling_mean_def)

lemma length_rolling_std [simp]: "length (rolling_std w xs) = length xs"
  by (simp add: rolling_std_def)

lemma length_rsi_gain [simp]: "length (rsi_gain xs) = length xs"
  by (simp add: rsi_gain_def where_or_zero_def)

lemma length_rsi_loss [simp]: "length (rsi_loss xs) = length xs"
  by (simp add: rsi_loss_def where_or_zero_def)

lemma nth_rsi_series:
  "i < length xs \<Longrightarrow> rsi_series xs ! i = rsi_value (rsi_gain xs ! i) (rsi_loss xs ! i)"
  by (simp add: rsi_series_def)

lemma indicators_RSI:
  "hist \<noteq> [] \<Longrightarrow>
   map_of (calculate_technical_indicators hist) ''RSI'' = Some (rsi_series (col_close hist))"
  by (simp add: calculate_technical_indicators_def dict_set_def Let_def)

lemma rsi_value_zero_loss:
  "is_zero loss \<Longrightarrow> rsi_value gain loss = (if is_nan gain \<or> is_zero gain then NaN else Fin 100)"
  by (cases gain; cases loss)
     (auto simp: rsi_value_def fdiv_def fadd_def fsub_def fneg_def is_zero_def zerosign_def inf_of_def)

section \<open>The relative strength index where the average loss is zero\<close>

text \<open>
  C1 (as amended). Where the 14-day average loss is zero, \<^verbatim>\<open>rs = gain / loss\<close> is a
  division by zero: it is an infinity when the average gain is not zero and NaN when
  the average gain is zero too. The infinity does not reach the RSI: \<open>1 + rs\<close> is
  infinite, \<open>100 / (1 + rs)\<close> is a zero and the RSI is exactly 100, whichever sign the
  zero loss carries. Only a window without any gain either gives NaN.
\<close>

theorem rsi_where_average_loss_is_zero:
  assumes "hist \<noteq> []" and "i < length hist"
    and "is_zero (rsi_loss (col_close hist) ! i)"
    and "map_of (calculate_technical_indicators hist) ''RSI'' = Some rsi"
  shows "rsi ! i =
           (if is_nan (rsi_gain (col_close hist) ! i) \<or> is_zero (rsi_gain (col_close hist) ! i)
            then NaN else Fin 100)"
proof -
  have "rsi = rsi_series (col_close hist)"
    using assms(1,4) by (simp add: indicators_RSI)
  moreover have "i < length (col_close hist)"
    using assms(2) by (simp add: col_close_def)
  ultimately show ?thesis
    using assms(3) by (simp add: nth_rsi_series rsi_value_zero_loss)
qed

theorem rsi_where_average_loss_is_zero_witness:
  "map row_at [Fin 1, Fin 2, Fin 3, Fin 4, Fin 5, Fin 6, Fin 7, Fin 8, Fin 9, Fin 10,
               Fin 11, Fin 12, Fin 13, Fin 14, Fin 15] \<noteq> []
   \<and> (14::nat) < length (map row_at [Fin 1, Fin 2, Fin 3, Fin 4, Fin 5, Fin 6, Fin 7, Fin 8,
               Fin 9, Fin 10, Fin 11, Fin 12, Fin 13, Fin 14, Fin 15])
   \<and> is_zero (rsi_loss (col_close (map row_at [Fin 1, Fin 2, Fin 3, Fin 4, Fin 5, Fin 6,
               Fin 7, Fin 8, Fin 9, Fin 10, Fin 11, Fin 12, Fin 13, Fin 14, Fin 15])) ! 14)
   \<and> map_of (calculate_technical_indicators (map row_at [Fin 1, Fin 2, Fin 3, Fin 4, Fin 5,
               Fin 6, Fin 7, Fin 8, Fin 9, Fin 10, Fin 11, Fin 12, Fin 13, Fin 14, Fin 15]))
         ''RSI''
       = Some (rsi_series (col_close (map row_at [Fin 1, Fin 2, Fin 3, Fin 4, Fin 5, Fin 6,
               Fin 7, Fin 8, Fin 9, Fin 10, Fin 11, Fin 12, Fin 13, Fin 14, Fin 15])))
   \<and> rsi_series (col_close (map row_at [Fin 1, Fin 2, Fin 3, Fin 4, Fin 5, Fin 6,
               Fin 7, Fin 8, Fin 9, Fin 10, Fin 11, Fin 12, Fin 13, Fin 14, Fin 15])) ! 14
       = Fin 100"
proof -
  let ?h = "map row_at [Fin 1, Fin 2, Fin 3, Fin 4, Fin 5, Fin 6, Fin 7, Fin 8, Fin 9, Fin 10,
               Fin 11, Fin 12, Fin 13, Fin 14, Fin 15]"
  have h1: "?h \<noteq> []" by simp
  have h2: "(14::nat) < length ?h" by simp
  have h3: "is_zero (rsi_loss (col_close ?h) ! 14)" by code_simp
  have h4: "map_of (calculate_technical_indicators ?h) ''RSI'' = Some (rsi_series (col_close ?h))"
    by (rule indicators_RSI) simp
  have g: "rsi_gain (col_close ?h) ! 14 = Fin 1" by code_simp
  have "rsi_series (col_close ?h) ! 14 =
          (if is_nan (Fin 1) \<or> is_zero (Fin 1) then NaN else Fin 100)"
    using rsi_where_average_loss_is_zero [OF h1 h2 h3 h4] unfolding g .
  then have "rsi_series (col_close ?h) ! 14 = Fin 100"
    by (simp add: is_zero_def)
  with h1 h2 h3 h4 show ?thesis by blast
qed

text \<open>
  The claim as stated fails on fifteen closes that rise by one a day: no day of the
  window loses, the average loss is zero, and the RSI of the last day is the number
  100.
\<close>

theorem rsi_rising_closes_counterexample:
  "is_zero (rsi_loss (col_close (map row_at [Fin 1, Fin 2, Fin 3, Fin 4, Fin 5, Fin 6, Fin 7,
               Fin 8, Fin 9, Fin 10, Fin 11, Fin 12, Fin 13, Fin 14, Fin 15])) ! 14)
   \<and> map_of (calculate_technical_indicators (map row_at [Fin 1, Fin 2, Fin 3, Fin 4, Fin 5,
               Fin 6, Fin 7, Fin 8, Fin 9, Fin 10, Fin 11, Fin 12, Fin 13, Fin 14, Fin 15]))
         ''RSI''
       = Some [NaN, NaN, NaN, NaN, NaN, NaN, NaN, NaN, NaN, NaN, NaN, NaN, NaN, Fin 100, Fin 100]"
proof -
  let ?h = "map row_at [Fin 1, Fin 2, Fin 3, Fin 4, Fin 5, Fin 6, Fin 7, Fin 8, Fin 9, Fin 10,
               Fin 11, Fin 12, Fin 13, Fin 14, Fin 15]"
  have "is_zero (rsi_loss (col_close ?h) ! 14)" by code_simp
  moreover have "rsi_series (col_close ?h) =
      [NaN, NaN, NaN, NaN, NaN, NaN, NaN, NaN, NaN, NaN, NaN, NaN, NaN, Fin 100, Fin 100]"
    by code_simp
  moreover have "map_of (calculate_technical_indicators ?h) ''RSI'' = Some (rsi_series (col_close ?h))"
    by (rule indicators_RSI) simp
  ultimately show ?thesis by simp
qed

section \<open>The syntax of a ticker symbol\<close>















lemma strip_Nil [simp]: "strip [] = []"
  by (simp add: strip_def)


section \<open>Fetching a symbol\<close>

text \<open>
  C2. \<open>get_stock_data\<close> returns \<^verbatim>\<open>None\<close> whenever the lookup of the symbol raises,
  the descriptive info raises, is missing, is empty or has no \<^verbatim>\<open>symbol\<close> field, or
  the historical series raises or is empty. The return value is the same in all these
  cases, so it does not tell the caller which of them occurred.
\<close>

theorem get_stock_data_not_found:
  assumes "(\<exists>e. yf symbol = Inl e) \<or>
           (\<exists>t. yf symbol = Inr t \<and>
              ((\<exists>e. info t = Inl e) \<or> info t = Inr None \<or> info t = Inr (Some []) \<or>
               (\<exists>d. info t = Inr (Some d) \<and> map_of d ''symbol'' = None) \<or>
               (\<exists>e. history t period = Inl e) \<or> history t period = Inr []))"
  shows "fst (get_stock_data yf symbol period) = None"
  using assms by (auto simp: get_stock_data_def split: sum.splits option.splits)

theorem get_stock_data_not_found_witness:
  "offline ''AAPL'' = Inl (ProviderError ''timed out'')
   \<and> fst (get_stock_data offline ''AAPL'' ''1y'') = None
   \<and> single_row (Fin 3) ''AAPL'' = Inr (ticker_of [row_at (Fin 3)])
   \<and> fst (get_stock_data (single_row (Fin 3)) ''AAPL'' ''1y'') \<noteq> None"
proof -
  have h: "offline ''AAPL'' = Inl (ProviderError ''timed out'')"
    by (simp add: offline_def)
  then have "(\<exists>e. offline ''AAPL'' = Inl e) \<or>
           (\<exists>t. offline ''AAPL'' = Inr t \<and>
              ((\<exists>e. info t = Inl e) \<or> info t = Inr None \<or> info t = Inr (Some []) \<or>
               (\<exists>d. info t = Inr (Some d) \<and> map_of d ''symbol'' = None) \<or>
               (\<exists>e. history t ''1y'' = Inl e) \<or> history t ''1y'' = Inr []))"
    by blast
  then have "fst (get_stock_data offline ''AAPL'' ''1y'') = None"
    by (rule get_stock_data_not_found)
  moreover have "fst (get_stock_data (single_row (Fin 3)) ''AAPL'' ''1y'') \<noteq> None"
    by (simp add: get_stock_data_def single_row_def ticker_of_def)
  ultimately show ?thesis
    using h by (simp add: single_row_def)
qed

section \<open>The market summary\<close>

lemma map_of_replace:
  "map_of (map (\<lambda>(k', v'). if k' = k then (k', v) else (k', v')) d) x =
     (if x = k \<and> k \<in> fst ` set d then Some v else map_of d x)"
proof (induction d arbitrary: x)
  case Nil
  show ?case by simp
next
  case (Cons p d)
  obtain a b where p: "p = (a, b)" by (cases p)
  show ?case
  proof (cases "a = k")
    case True
    then show ?thesis by (simp add: p Cons.IH)
  next
    case False
    then show ?thesis by (simp add: p Cons.IH)
  qed
qed

lemma map_of_dict_set: "map_of (dict_set d k v) = (map_of d)(k \<mapsto> v)"
proof (cases "k \<in> fst ` set d")
  case False
  then have "map_of d k = None" by (simp add: map_of_eq_None_iff)
  with False show ?thesis
    by (auto simp: dict_set_def fun_eq_iff map_add_def split: option.splits)
next
  case True
  then show ?thesis
    by (simp add: dict_set_def fun_eq_iff map_of_replace)
qed

lemma map_of_summary_loop:
  "distinct (map fst idx) \<Longrightarrow>
   map_of (summary_loop yf idx md) name =
     (case map_of idx name of
        None \<Rightarrow> map_of md name
      | Some symbol \<Rightarrow>
          (case index_quote yf symbol of
             Inr (Some e) \<Rightarrow> Some e
           | _ \<Rightarrow> map_of md name))"
proof (induction idx arbitrary: md)
  case Nil
  show ?case by simp
next
  case (Cons p idx)
  obtain n s where p: "p = (n, s)" by (cases p)
  from Cons.prems p have d: "distinct (map fst idx)" and n: "map_of idx n = None"
    by (auto simp: map_of_eq_None_iff)
  show ?case
    using Cons.IH [OF d] n
    by (auto simp: p map_of_dict_set split: sum.splits option.splits)
qed

lemma iloc_last: "xs \<noteq> [] \<Longrightarrow> iloc xs (- 1) = Inr (last xs)"
  by (cases xs rule: rev_cases) (auto simp: iloc_def nth_append)

lemma iloc_before_last:
  "1 < length xs \<Longrightarrow> iloc xs (- 2) = Inr (xs ! (length xs - 2))"
  by (auto simp: iloc_def)

lemma index_quote_eq:
  "index_quote yf symbol =
     (case yf symbol of
        Inl e \<Rightarrow> Inl e
      | Inr t \<Rightarrow>
         (case history t ''2d'' of
            Inl e \<Rightarrow> Inl e
          | Inr hist \<Rightarrow>
              if hist = [] then Inr None
              else let cur = p_close (last hist);
                       previous = (if 1 < length hist then p_close (hist ! (length hist - 2)) else cur)
                   in Inr (Some \<lparr>current = cur, change = fsub cur previous,
                                 change_pct = fmul (fdiv (fsub cur previous) previous) (Fin 100)\<rparr>)))"
proof (cases "yf symbol")
  case (Inl e)
  then show ?thesis by (simp add: index_quote_def)
next
  case (Inr t)
  show ?thesis
  proof (cases "history t ''2d''")
    case (Inl e)
    with Inr show ?thesis by (simp add: index_quote_def)
  next
    case hist: (Inr hist)
    show ?thesis
    proof (cases "hist = []")
      case True
      with Inr hist show ?thesis by (simp add: index_quote_def)
    next
      case False
      then have l: "iloc (col_close hist) (- 1) = Inr (p_close (last hist))"
        by (simp add: iloc_last col_close_def last_map)
      have b: "1 < length hist \<Longrightarrow>
               iloc (col_close hist) (- 2) = Inr (p_close (hist ! (length hist - 2)))"
        by (simp add: iloc_before_last col_close_def)
      from False Inr hist l b show ?thesis
        by (simp add: index_quote_def Let_def)
    qed
  qed
qed

lemma summary_entry:
  assumes "(name, symbol) \<in> set indices"
  shows "map_of (get_market_summary yf) name =
           (case index_quote yf symbol of Inr (Some e) \<Rightarrow> Some e | _ \<Rightarrow> None)"
proof -
  have d: "distinct (map fst indices)" by (simp add: indices_def)
  with assms have "map_of indices name = Some symbol" by simp
  then show ?thesis
    by (simp add: get_market_summary_def map_of_summary_loop [OF d]
             split: sum.splits option.splits)
qed

lemma summary_no_entry:
  assumes "name \<notin> fst ` set indices"
  shows "map_of (get_market_summary yf) name = None"
proof -
  have d: "distinct (map fst indices)" by (simp add: indices_def)
  from assms have "map_of indices name = None" by (simp add: map_of_eq_None_iff)
  then show ?thesis
    by (simp add: get_market_summary_def map_of_summary_loop [OF d])
qed

text \<open>
  C9. For each of the four named indices the summary holds the entry computed from
  that index's own history (its last close, the change from the close before and the
  change in percent), and holds no entry when the lookup of that index raises or its
  history is empty. Nothing else is in the summary, and no failure of one index
  changes the entry of another: the function always returns.
\<close>

theorem get_market_summary_per_index:
  "(\<forall>(name, symbol) \<in> set indices.
      map_of (get_market_summary yf) name =
        (case yf symbol of
           Inl e \<Rightarrow> None
         | Inr t \<Rightarrow>
            (case history t ''2d'' of
               Inl e \<Rightarrow> None
             | Inr hist \<Rightarrow>
                 if hist = [] then None
                 else let cur = p_close (last hist);
                          previous = (if 1 < length hist then p_close (hist ! (length hist - 2)) else cur)
                      in Some \<lparr>current = cur, change = fsub cur previous,
                               change_pct = fmul (fdiv (fsub cur previous) previous) (Fin 100)\<rparr>)))
   \<and> (\<forall>name. name \<notin> fst ` set indices \<longrightarrow> map_of (get_market_summary yf) name = None)"
proof -
  show ?thesis
  proof (intro conjI ballI allI impI)
    fix p assume pin: "p \<in> set indices"
    obtain name symbol where p: "p = (name, symbol)" by (cases p)
    have "map_of (get_market_summary yf) name =
            (case index_quote yf symbol of Inr (Some e) \<Rightarrow> Some e | _ \<Rightarrow> None)"
      using summary_entry [of name symbol yf] pin p by simp
    also have "\<dots> =
        (case yf symbol of
           Inl e \<Rightarrow> None
         | Inr t \<Rightarrow>
            (case history t ''2d'' of
               Inl e \<Rightarrow> None
             | Inr hist \<Rightarrow>
                 if hist = [] then None
                 else let cur = p_close (last hist);
                          previous = (if 1 < length hist then p_close (hist ! (length hist - 2)) else cur)
                      in Some \<lparr>current = cur, change = fsub cur previous,
                               change_pct = fmul (fdiv (fsub cur previous) previous) (Fin 100)\<rparr>))"
      by (simp add: index_quote_eq Let_def split: sum.splits)
    finally have eq: "map_of (get_market_summary yf) name =
        (case yf symbol of
           Inl e \<Rightarrow> None
         | Inr t \<Rightarrow>
            (case history t ''2d'' of
               Inl e \<Rightarrow> None
             | Inr hist \<Rightarrow>
                 if hist = [] then None
                 else let cur = p_close (last hist);
                          previous = (if 1 < length hist then p_close (hist ! (length hist - 2)) else cur)
                      in Some \<lparr>current = cur, change = fsub cur previous,
                               change_pct = fmul (fdiv (fsub cur previous) previous) (Fin 100)\<rparr>))" .
    show "case p of (name, symbol) \<Rightarrow>
      map_of (get_market_summary yf) name =
        (case yf symbol of
           Inl e \<Rightarrow> None
         | Inr t \<Rightarrow>
            (case history t ''2d'' of
               Inl e \<Rightarrow> None
             | Inr hist \<Rightarrow>
                 if hist = [] then None
                 else let cur = p_close (last hist);
                          previous = (if 1 < length hist then p_close (hist ! (length hist - 2)) else cur)
                      in Some \<lparr>current = cur, change = fsub cur previous,
                               change_pct = fmul (fdiv (fsub cur previous) previous) (Fin 100)\<rparr>))"
      unfolding p prod.case by (rule eq)
  next
    fix name assume "name \<notin> fst ` set indices"
    then show "map_of (get_market_summary yf) name = None" by (rule summary_no_entry)
  qed
qed

theorem get_market_summary_per_index_witness:
  "(''S&P 500'', ''^GSPC'') \<in> set indices \<and> (''Dow Jones'', ''^DJI'') \<in> set indices
   \<and> (''NASDAQ'', ''^IXIC'') \<in> set indices \<and> (''Russell 2000'', ''^RUT'') \<in> set indices
   \<and> ''FTSE 100'' \<notin> fst ` set indices
   \<and> map_of (get_market_summary mixed_source) ''S&P 500''
       = Some \<lparr>current = Fin 5050, change = Fin 50, change_pct = Fin 1\<rparr>
   \<and> map_of (get_market_summary mixed_source) ''Dow Jones'' = None
   \<and> map_of (get_market_summary mixed_source) ''NASDAQ'' = None
   \<and> map_of (get_market_summary mixed_source) ''Russell 2000''
       = Some \<lparr>current = Fin 2000, change = Fin 0, change_pct = Fin 0\<rparr>
   \<and> map_of (get_market_summary mixed_source) ''FTSE 100'' = None"
proof -
  note t = get_market_summary_per_index [of mixed_source]
  have i1: "(''S&P 500'', ''^GSPC'') \<in> set indices" by (simp add: indices_def)
  have i2: "(''Dow Jones'', ''^DJI'') \<in> set indices" by (simp add: indices_def)
  have i3: "(''NASDAQ'', ''^IXIC'') \<in> set indices" by (simp add: indices_def)
  have i4: "(''Russell 2000'', ''^RUT'') \<in> set indices" by (simp add: indices_def)
  have i5: "''FTSE 100'' \<notin> fst ` set indices" by (simp add: indices_def)
  from t i1 have "map_of (get_market_summary mixed_source) ''S&P 500''
       = Some \<lparr>current = Fin 5050, change = Fin 50, change_pct = Fin 1\<rparr>"
    by (auto simp: mixed_source_def ticker_of_def row_at_def)
  moreover from t i2 have "map_of (get_market_summary mixed_source) ''Dow Jones'' = None"
    by (auto simp: mixed_source_def ticker_of_def row_at_def)
  moreover from t i3 have "map_of (get_market_summary mixed_source) ''NASDAQ'' = None"
    by (auto simp: mixed_source_def ticker_of_def row_at_def)
  moreover from t i4 have "map_of (get_market_summary mixed_source) ''Russell 2000''
       = Some \<lparr>current = Fin 2000, change = Fin 0, change_pct = Fin 0\<rparr>"
    by (auto simp: mixed_source_def ticker_of_def row_at_def)
  moreover from t i5 have "map_of (get_market_summary mixed_source) ''FTSE 100'' = None"
    by blast
  ultimately show ?thesis using i1 i2 i3 i4 i5 by blast
qed

text \<open>
  C10 (as amended). When the history of an index has exactly one row, the index is in
  the summary and its close serves as its own previous value. The change and the
  change in percent are then zero whenever that close is a finite number other than
  zero. For a close of zero the change in percent is \<open>0 / 0\<close>, which is NaN, and for a
  close that is NaN or infinite both are NaN.
\<close>

theorem single_row_index_entry:
  assumes "(name, symbol) \<in> set indices"
    and "yf symbol = Inr t"
    and "history t ''2d'' = Inr [row]"
  shows "map_of (get_market_summary yf) name =
           Some \<lparr>current = p_close row,
                 change = fsub (p_close row) (p_close row),
                 change_pct = fmul (fdiv (fsub (p_close row) (p_close row)) (p_close row)) (Fin 100)\<rparr>
         \<and> (is_finite (p_close row) \<and> \<not> is_zero (p_close row) \<longrightarrow>
              feq (fsub (p_close row) (p_close row)) (Fin 0) \<and>
              feq (fmul (fdiv (fsub (p_close row) (p_close row)) (p_close row)) (Fin 100)) (Fin 0))
         \<and> (is_zero (p_close row) \<longrightarrow>
              feq (fsub (p_close row) (p_close row)) (Fin 0) \<and>
              is_nan (fmul (fdiv (fsub (p_close row) (p_close row)) (p_close row)) (Fin 100)))
         \<and> (\<not> is_finite (p_close row) \<longrightarrow>
              is_nan (fsub (p_close row) (p_close row)) \<and>
              is_nan (fmul (fdiv (fsub (p_close row) (p_close row)) (p_close row)) (Fin 100)))"
proof -
  have "map_of (get_market_summary yf) name =
           Some \<lparr>current = p_close row,
                 change = fsub (p_close row) (p_close row),
                 change_pct = fmul (fdiv (fsub (p_close row) (p_close row)) (p_close row)) (Fin 100)\<rparr>"
    using summary_entry [OF assms(1), of yf] assms(2,3)
    by (simp add: index_quote_eq Let_def)
  moreover have "is_finite c \<and> \<not> is_zero c \<longrightarrow>
      feq (fsub c c) (Fin 0) \<and> feq (fmul (fdiv (fsub c c) c) (Fin 100)) (Fin 0)" for c
    by (cases c)
       (auto simp: is_zero_def fsub_def fneg_def fadd_def fdiv_def fmul_def feq_def zerosign_def)
  moreover have "is_zero c \<longrightarrow>
      feq (fsub c c) (Fin 0) \<and> is_nan (fmul (fdiv (fsub c c) c) (Fin 100))" for c
    by (cases c)
       (auto simp: is_zero_def fsub_def fneg_def fadd_def fdiv_def fmul_def feq_def zerosign_def)
  moreover have "\<not> is_finite c \<longrightarrow>
      is_nan (fsub c c) \<and> is_nan (fmul (fdiv (fsub c c) c) (Fin 100))" for c
    by (cases c)
       (auto simp: is_zero_def fsub_def fneg_def fadd_def fdiv_def fmul_def feq_def zerosign_def)
  ultimately show ?thesis by blast
qed

theorem single_row_index_entry_witness:
  "(''Russell 2000'', ''^RUT'') \<in> set indices
   \<and> mixed_source ''^RUT'' = Inr (ticker_of [row_at (Fin 2000)])
   \<and> history (ticker_of [row_at (Fin 2000)]) ''2d'' = Inr [row_at (Fin 2000)]
   \<and> is_finite (p_close (row_at (Fin 2000))) \<and> \<not> is_zero (p_close (row_at (Fin 2000)))
   \<and> map_of (get_market_summary mixed_source) ''Russell 2000''
       = Some \<lparr>current = Fin 2000, change = Fin 0, change_pct = Fin 0\<rparr>"
proof -
  have h1: "(''Russell 2000'', ''^RUT'') \<in> set indices" by (simp add: indices_def)
  have h2: "mixed_source ''^RUT'' = Inr (ticker_of [row_at (Fin 2000)])"
    by (simp add: mixed_source_def)
  have h3: "history (ticker_of [row_at (Fin 2000)]) ''2d'' = Inr [row_at (Fin 2000)]"
    by (simp add: ticker_of_def)
  have h4: "is_finite (p_close (row_at (Fin 2000))) \<and> \<not> is_zero (p_close (row_at (Fin 2000)))"
    by (simp add: row_at_def is_zero_def)
  from single_row_index_entry [where yf = mixed_source, OF h1 h2 h3]
  have "map_of (get_market_summary mixed_source) ''Russell 2000''
       = Some \<lparr>current = Fin 2000, change = Fin 0, change_pct = Fin 0\<rparr>"
    by (simp add: row_at_def)
  with h1 h2 h3 h4 show ?thesis by blast
qed

text \<open>
  The claim as stated fails on a single row whose close is zero (the change in percent
  is NaN) and on one whose close is NaN (the change is NaN too).
\<close>

theorem single_row_zero_close_counterexample:
  "map_of (get_market_summary (single_row (Fin 0))) ''S&P 500''
     = Some \<lparr>current = Fin 0, change = Fin 0, change_pct = NaN\<rparr>
   \<and> map_of (get_market_summary (single_row NaN)) ''S&P 500''
     = Some \<lparr>current = NaN, change = NaN, change_pct = NaN\<rparr>"
  by code_simp

section \<open>The trend label\<close>

lemma foldl_fadd_Fin: "foldl fadd (Fin a) (map Fin xs) = Fin (a + sum_list xs)"
  by (induction xs arbitrary: a) (simp_all add: add.assoc)

lemma fsum_Fin: "fsum (map Fin xs) = Fin (sum_list xs)"
  by (simp add: fsum_def foldl_fadd_Fin)

lemma trailing_Fin:
  "w \<le> Suc i \<Longrightarrow> trailing w i (map Fin ps) = Some (map Fin (take w (drop (Suc i - w) ps)))"
  by (simp add: trailing_def list_ex_iff take_map drop_map Let_def)

lemma nth_rolling_mean:
  "i < length xs \<Longrightarrow>
   rolling_mean w xs ! i =
     (case trailing w i xs of None \<Rightarrow> NaN | Some win \<Rightarrow> fdiv (fsum win) (Fin (real w)))"
  by (simp add: rolling_mean_def)

lemma rolling_mean_Fin:
  "0 < w \<Longrightarrow> w \<le> Suc i \<Longrightarrow> i < length ps \<Longrightarrow>
   rolling_mean w (map Fin ps) ! i = Fin (sum_list (take w (drop (Suc i - w) ps)) / real w)"
  by (simp add: nth_rolling_mean trailing_Fin fsum_Fin)

lemma rolling_mean_early:
  "i < length xs \<Longrightarrow> Suc i < w \<Longrightarrow> rolling_mean w xs ! i = NaN"
  by (simp add: nth_rolling_mean trailing_def)

lemma fmul_Fin_pos [simp]: "0 < y \<Longrightarrow> fmul (Fin x) (Fin y) = Fin (x * y)"
  by (auto simp: fmul_def is_zero_def zerosign_def)

lemma determine_trend_short:
  "length prices < 20 \<Longrightarrow> determine_trend prices 20 = Inr ''Insufficient Data''"
  by (simp add: determine_trend_def)

lemma determine_trend_20:
  assumes "20 \<le> length prices"
  shows "determine_trend prices 20 =
     (let current_ma = rolling_mean 20 prices ! (length prices - 1);
          previous_ma = rolling_mean 20 prices ! (length prices - 10)
      in if is_nan current_ma \<or> is_nan previous_ma then Inr ''Insufficient Data''
         else let change_pct = fmul (fdiv (fsub current_ma previous_ma) previous_ma) (Fin 100)
              in if fgt change_pct (Fin 2) then Inr ''Upward''
                 else if flt change_pct (Fin (- 2)) then Inr ''Downward''
                 else Inr ''Sideways'')"
proof -
  have 1: "iloc (rolling_mean 20 prices) (- 1) = Inr (rolling_mean 20 prices ! (length prices - 1))"
    using assms by (simp add: iloc_def)
  have 2: "iloc (rolling_mean 20 prices) (- 10) = Inr (rolling_mean 20 prices ! (length prices - 10))"
    using assms by (simp add: iloc_def)
  show ?thesis
    using assms by (simp add: determine_trend_def 1 2 Let_def)
qed

lemma determine_trend_medium:
  assumes "20 \<le> length prices" and "length prices < 29"
  shows "determine_trend prices 20 = Inr ''Insufficient Data''"
proof -
  have "rolling_mean 20 prices ! (length prices - 10) = NaN"
    using assms by (intro rolling_mean_early) auto
  then show ?thesis
    using assms(1) by (simp add: determine_trend_20 Let_def)
qed











section \<open>The maximum drawdown\<close>

lemma filter_Fin [simp]: "filter (\<lambda>x. \<not> is_nan x) (map Fin xs) = map Fin xs"
  by (induction xs) simp_all

lemma dropna_Fin [simp]: "dropna (map Fin xs) = map Fin xs"
  by (simp add: dropna_def)

lemma fmax2_Fin [simp]: "fmax2 (Fin a) (Fin b) = Fin (max a b)"
  by (simp add: fmax2_def max_def)

lemma fmin2_Fin [simp]: "fmin2 (Fin a) (Fin b) = Fin (min a b)"
  by (auto simp: fmin2_def min_def)

lemma foldl_fmax2_Fin: "foldl fmax2 (Fin y) (map Fin ys) = Fin (Max (insert y (set ys)))"
proof (induction ys arbitrary: y)
  case Nil
  show ?case by simp
next
  case (Cons z ys)
  have "Max (insert (max y z) (set ys)) = Max (insert y (insert z (set ys)))"
    by (cases "set ys = {}") (simp_all add: max.assoc)
  then show ?case by (simp add: Cons.IH)
qed

lemma foldl_fmin2_Fin: "foldl fmin2 (Fin y) (map Fin ys) = Fin (Min (insert y (set ys)))"
proof (induction ys arbitrary: y)
  case Nil
  show ?case by simp
next
  case (Cons z ys)
  have "Min (insert (min y z) (set ys)) = Min (insert y (insert z (set ys)))"
    by (cases "set ys = {}") (simp_all add: min.assoc)
  then show ?case by (simp add: Cons.IH)
qed

lemma series_max_Fin: "xs \<noteq> [] \<Longrightarrow> series_max (map Fin xs) = Fin (Max (set xs))"
  by (cases xs) (simp_all add: series_max_def dropna_def foldl_fmax2_Fin)

lemma series_min_Fin: "xs \<noteq> [] \<Longrightarrow> series_min (map Fin xs) = Fin (Min (set xs))"
  by (cases xs) (simp_all add: series_min_def dropna_def foldl_fmin2_Fin)

lemma expanding_max_Fin:
  "expanding_max (map Fin ps) = map (\<lambda>i. Fin (Max (set (take (Suc i) ps)))) [0..<length ps]"
proof -
  have "series_max (take (Suc i) (map Fin ps)) = Fin (Max (set (take (Suc i) ps)))"
    if "i < length ps" for i
  proof -
    from that have "take (Suc i) ps \<noteq> []" by (cases ps) auto
    then show ?thesis by (simp add: take_map series_max_Fin del: take_Suc_Cons)
  qed
  then show ?thesis by (simp add: expanding_max_def)
qed

lemma running_max_bounds:
  fixes ps :: "real list"
  assumes "i < length ps" and "\<forall>p \<in> set ps. 0 < p"
  shows "ps ! i \<le> Max (set (take (Suc i) ps))" and "0 < Max (set (take (Suc i) ps))"
proof -
  have m: "ps ! i \<in> set (take (Suc i) ps)"
    using assms(1) by (auto simp: in_set_conv_nth intro!: exI [of _ i])
  then show "ps ! i \<le> Max (set (take (Suc i) ps))" by simp
  moreover have "0 < ps ! i" using assms by simp
  ultimately show "0 < Max (set (take (Suc i) ps))" by linarith
qed

lemma max_drawdown_Fin:
  assumes "ps \<noteq> []" and "\<forall>p \<in> set ps. 0 < p"
  shows "calculate_max_drawdown (map Fin ps) = Fin (Min (set (drawdowns ps)))"
proof -
  have "map2 (\<lambda>p m. fdiv (fsub p m) m) (map Fin ps) (expanding_max (map Fin ps)) =
        map Fin (drawdowns ps)"
  proof (rule nth_equalityI)
    show "length (map2 (\<lambda>p m. fdiv (fsub p m) m) (map Fin ps) (expanding_max (map Fin ps))) =
          length (map Fin (drawdowns ps))"
      by (simp add: expanding_max_Fin drawdowns_def)
  next
    fix i
    assume "i < length (map2 (\<lambda>p m. fdiv (fsub p m) m) (map Fin ps) (expanding_max (map Fin ps)))"
    then have i: "i < length ps" by (simp add: expanding_max_Fin)
    have "0 < Max (set (take (Suc i) ps))" by (rule running_max_bounds(2) [OF i assms(2)])
    with i show "map2 (\<lambda>p m. fdiv (fsub p m) m) (map Fin ps) (expanding_max (map Fin ps)) ! i =
          map Fin (drawdowns ps) ! i"
      by (simp add: expanding_max_Fin drawdowns_def del: take_Suc_Cons)
  qed
  moreover have "drawdowns ps \<noteq> []" using assms(1) by (simp add: drawdowns_def)
  ultimately show ?thesis
    using assms(1) by (simp add: calculate_max_drawdown_def series_min_Fin Let_def)
qed

lemma drawdowns_nonpos:
  assumes "\<forall>p \<in> set ps. 0 < p" and "d \<in> set (drawdowns ps)"
  shows "d \<le> 0"
proof -
  from assms(2) obtain i where i: "i < length ps"
    and d: "d = (ps ! i - Max (set (take (Suc i) ps))) / Max (set (take (Suc i) ps))"
    by (auto simp: drawdowns_def)
  from running_max_bounds [OF i assms(1)] show ?thesis
    unfolding d by (simp add: divide_le_0_iff)
qed

lemma drawdown_zero_iff:
  assumes "\<forall>p \<in> set ps. 0 < p" and "i < length ps"
  shows "drawdowns ps ! i = 0 \<longleftrightarrow> ps ! i = Max (set (take (Suc i) ps))"
proof -
  from running_max_bounds(2) [OF assms(2) assms(1)] assms(2) show ?thesis
    by (simp add: drawdowns_def del: take_Suc_Cons)
qed

lemma running_max_sorted:
  fixes ps :: "real list"
  shows "(\<forall>i < length ps. ps ! i = Max (set (take (Suc i) ps))) \<longleftrightarrow> sorted ps"
proof
  assume a: "\<forall>i < length ps. ps ! i = Max (set (take (Suc i) ps))"
  show "sorted ps"
  proof (unfold sorted_iff_nth_mono, intro allI impI)
    fix j i
    assume "j \<le> i" and i: "i < length ps"
    then have "ps ! j \<in> set (take (Suc i) ps)"
      by (auto simp: in_set_conv_nth intro!: exI [of _ j])
    then have "ps ! j \<le> Max (set (take (Suc i) ps))" by simp
    with a i show "ps ! j \<le> ps ! i" by simp
  qed
next
  assume s: "sorted ps"
  show "\<forall>i < length ps. ps ! i = Max (set (take (Suc i) ps))"
  proof (intro allI impI)
    fix i
    assume i: "i < length ps"
    have "Max (set (take (Suc i) ps)) = ps ! i"
    proof (rule Max_eqI)
      show "finite (set (take (Suc i) ps))" by simp
    next
      fix y
      assume "y \<in> set (take (Suc i) ps)"
      then obtain j where "j < Suc i" "j < length ps" "y = ps ! j"
        by (auto simp: in_set_conv_nth)
      with s i show "y \<le> ps ! i"
        by (simp add: sorted_iff_nth_mono)
    next
      from i show "ps ! i \<in> set (take (Suc i) ps)"
        by (auto simp: in_set_conv_nth intro!: exI [of _ i])
    qed
    then show "ps ! i = Max (set (take (Suc i) ps))" by simp
  qed
qed

lemma min_drawdown_zero_iff:
  assumes "ps \<noteq> []" and "\<forall>p \<in> set ps. 0 < p"
  shows "Min (set (drawdowns ps)) \<le> 0"
    and "Min (set (drawdowns ps)) = 0 \<longleftrightarrow> sorted ps"
proof -
  have ne: "set (drawdowns ps) \<noteq> {}" using assms(1) by (simp add: drawdowns_def)
  have np: "\<forall>d \<in> set (drawdowns ps). d \<le> 0"
    using drawdowns_nonpos [OF assms(2)] by blast
  have len: "length (drawdowns ps) = length ps" by (simp add: drawdowns_def)
  from ne np show "Min (set (drawdowns ps)) \<le> 0"
    by (meson List.finite_set Min_in)
  have "Min (set (drawdowns ps)) = 0 \<longleftrightarrow> (\<forall>d \<in> set (drawdowns ps). d = 0)"
  proof
    assume m: "Min (set (drawdowns ps)) = 0"
    show "\<forall>d \<in> set (drawdowns ps). d = 0"
    proof
      fix d assume d: "d \<in> set (drawdowns ps)"
      then have "Min (set (drawdowns ps)) \<le> d" by simp
      with m np d show "d = 0" by force
    qed
  next
    assume z: "\<forall>d \<in> set (drawdowns ps). d = 0"
    from ne have "Min (set (drawdowns ps)) \<in> set (drawdowns ps)" by (intro Min_in) simp_all
    with z show "Min (set (drawdowns ps)) = 0" by blast
  qed
  also have "\<dots> \<longleftrightarrow> (\<forall>i < length ps. drawdowns ps ! i = 0)"
    using len by (metis in_set_conv_nth)
  also have "\<dots> \<longleftrightarrow> (\<forall>i < length ps. ps ! i = Max (set (take (Suc i) ps)))"
    using drawdown_zero_iff [OF assms(2)] by blast
  also have "\<dots> \<longleftrightarrow> sorted ps" by (rule running_max_sorted)
  finally show "Min (set (drawdowns ps)) = 0 \<longleftrightarrow> sorted ps" .
qed

text \<open>
  C4. On a non-empty series of positive prices the maximum drawdown is a number that
  is at most zero, and it is zero exactly when the prices never fall (the series is
  non-decreasing). On the empty series it is NaN.
\<close>

theorem max_drawdown_nonpositive:
  "calculate_max_drawdown [] = NaN
   \<and> (\<forall>ps. ps \<noteq> [] \<and> (\<forall>p \<in> set ps. 0 < p) \<longrightarrow>
        is_finite (calculate_max_drawdown (map Fin ps)) \<and>
        fle (calculate_max_drawdown (map Fin ps)) (Fin 0) \<and>
        (feq (calculate_max_drawdown (map Fin ps)) (Fin 0) \<longleftrightarrow> sorted ps))"
proof (intro conjI allI impI)
  show "calculate_max_drawdown [] = NaN" by (simp add: calculate_max_drawdown_def)
next
  fix ps :: "real list"
  assume a: "ps \<noteq> [] \<and> (\<forall>p \<in> set ps. 0 < p)"
  then have e: "calculate_max_drawdown (map Fin ps) = Fin (Min (set (drawdowns ps)))"
    by (simp add: max_drawdown_Fin)
  show "is_finite (calculate_max_drawdown (map Fin ps))" by (simp add: e)
  show "fle (calculate_max_drawdown (map Fin ps)) (Fin 0)"
    using a by (simp add: e min_drawdown_zero_iff(1))
  show "feq (calculate_max_drawdown (map Fin ps)) (Fin 0) \<longleftrightarrow> sorted ps"
    using a by (simp add: e min_drawdown_zero_iff(2))
qed

theorem max_drawdown_nonpositive_witness:
  "[4, 2, 3] \<noteq> ([] :: real list) \<and> list_all (\<lambda>p. 0 < p) [4, 2, 3 :: real]
   \<and> \<not> sorted [4, 2, 3 :: real]
   \<and> calculate_max_drawdown (map Fin [4, 2, 3]) = Fin (- (1 / 2))
   \<and> fle (calculate_max_drawdown (map Fin [4, 2, 3])) (Fin 0)
   \<and> \<not> feq (calculate_max_drawdown (map Fin [4, 2, 3])) (Fin 0)
   \<and> [3, 4, 4, 5] \<noteq> ([] :: real list) \<and> list_all (\<lambda>p. 0 < p) [3, 4, 4, 5 :: real]
   \<and> sorted [3, 4, 4, 5 :: real]
   \<and> feq (calculate_max_drawdown (map Fin [3, 4, 4, 5])) (Fin 0)"
proof -
  note t = max_drawdown_nonpositive [THEN conjunct2, rule_format]
  have a: "[4, 2, 3] \<noteq> ([] :: real list) \<and> (\<forall>p \<in> set [4, 2, 3 :: real]. 0 < p)" by simp
  have b: "[3, 4, 4, 5] \<noteq> ([] :: real list) \<and> (\<forall>p \<in> set [3, 4, 4, 5 :: real]. 0 < p)" by simp
  have la: "list_all (\<lambda>p. 0 < p) [4, 2, 3 :: real]" by simp
  have lb: "list_all (\<lambda>p. 0 < p) [3, 4, 4, 5 :: real]" by simp
  have v: "calculate_max_drawdown (map Fin [4, 2, 3]) = Fin (- (1 / 2))" by code_simp
  have s1: "\<not> sorted [4, 2, 3 :: real]" by simp
  have s2: "sorted [3, 4, 4, 5 :: real]" by simp
  from t [OF a] s1 have "fle (calculate_max_drawdown (map Fin [4, 2, 3])) (Fin 0)"
    and "\<not> feq (calculate_max_drawdown (map Fin [4, 2, 3])) (Fin 0)" by blast+
  moreover from t [OF b] s2 have "feq (calculate_max_drawdown (map Fin [3, 4, 4, 5])) (Fin 0)"
    by blast
  ultimately show ?thesis using a b la lb v s1 s2 by blast
qed

section \<open>Empty and short inputs\<close>

lemma sample_std_short: "length ys \<le> 1 \<Longrightarrow> sample_std ys = NaN"
  by (simp add: sample_std_def)

lemma length_dropna: "length (dropna xs) \<le> length xs"
  by (simp add: dropna_def)

lemma series_std_short: "length xs \<le> 1 \<Longrightarrow> series_std xs = NaN"
proof -
  assume "length xs \<le> 1"
  with length_dropna [of xs] have "length (dropna xs) \<le> 1" by linarith
  then show ?thesis by (simp add: series_std_def sample_std_short)
qed

lemma fmul_NaN [simp]: "fmul NaN b = NaN" "fmul a NaN = NaN"
  by (simp_all add: fmul_def)

lemma fdiv_NaN [simp]: "fdiv NaN b = NaN" "fdiv a NaN = NaN"
  by (simp_all add: fdiv_def)

lemma fsub_NaN [simp]: "fsub NaN b = NaN"
  by (simp add: fsub_def fadd_def)

lemma volatility_short:
  "length returns \<le> 1 \<Longrightarrow> calculate_volatility returns periods = NaN"
  by (simp add: calculate_volatility_def series_std_short)

lemma sharpe_short:
  "length returns \<le> 1 \<Longrightarrow> periods \<noteq> 0 \<Longrightarrow>
   calculate_sharpe_ratio returns rf periods = Inr NaN"
  by (simp add: calculate_sharpe_ratio_def series_std_short py_truediv_def is_zero_def)

lemma pct_change_Cons: "pct_change (p # ps) = NaN # tl (pct_change (p # ps))"
  by (simp add: pct_change_def shift_def)

lemma length_pct_change [simp]: "length (pct_change xs) = length xs"
  by (simp add: pct_change_def)

lemma length_calculate_returns: "length (calculate_returns prices) \<le> length prices - 1"
proof (cases prices)
  case Nil
  then show ?thesis by (simp add: calculate_returns_def)
next
  case (Cons p ps)
  have "dropna (pct_change (p # ps)) = dropna (tl (pct_change (p # ps)))"
    by (subst pct_change_Cons) (simp add: dropna_def)
  moreover have "length (dropna (tl (pct_change (p # ps)))) \<le> length (tl (pct_change (p # ps)))"
    by (rule length_dropna)
  ultimately show ?thesis
    using Cons by (simp add: calculate_returns_def)
qed

text \<open>
  C5. Each statistic answers an input that is empty, or too short for it, with its
  no-data value and without raising: the returns of no price or of a single price are
  the empty series; the volatility and the Sharpe ratio of no return or of a single
  return (so of at most two prices) are NaN, the standard deviation of fewer than two
  values being undefined; the maximum drawdown of no price is NaN; the trend of fewer
  prices than the window is \<^verbatim>\<open>Insufficient Data\<close>. None of these values is a zero.
  (The Sharpe ratio divides the annual rate by \<open>periods\<close> in Python's own arithmetic,
  which raises for \<open>periods = 0\<close> on a non-empty input; the default is 252.)
\<close>

theorem no_data_sentinels:
  "calculate_returns [] = []
   \<and> (\<forall>periods. calculate_volatility [] periods = NaN)
   \<and> (\<forall>rf periods. calculate_sharpe_ratio [] rf periods = Inr NaN)
   \<and> calculate_max_drawdown [] = NaN
   \<and> determine_trend [] 20 = Inr ''Insufficient Data''
   \<and> (\<forall>p. calculate_returns [p] = [])
   \<and> (\<forall>prices periods. length prices \<le> 2 \<longrightarrow>
         calculate_volatility (calculate_returns prices) periods = NaN)
   \<and> (\<forall>prices rf periods. length prices \<le> 2 \<and> periods \<noteq> 0 \<longrightarrow>
         calculate_sharpe_ratio (calculate_returns prices) rf periods = Inr NaN)
   \<and> (\<forall>prices. length prices < 20 \<longrightarrow> determine_trend prices 20 = Inr ''Insufficient Data'')"
proof (intro conjI allI impI)
  show "calculate_returns [] = []" by (simp add: calculate_returns_def)
  show "calculate_volatility [] periods = NaN" for periods
    by (simp add: calculate_volatility_def)
  show "calculate_sharpe_ratio [] rf periods = Inr NaN" for rf periods
    by (simp add: calculate_sharpe_ratio_def)
  show "calculate_max_drawdown [] = NaN" by (simp add: calculate_max_drawdown_def)
  show "determine_trend [] 20 = Inr ''Insufficient Data''" by (simp add: determine_trend_short)
  show "calculate_returns [p] = []" for p
    using length_calculate_returns [of "[p]"] by simp
next
  fix prices :: series and periods :: int
  assume "length prices \<le> 2"
  with length_calculate_returns [of prices] have "length (calculate_returns prices) \<le> 1" by linarith
  then show "calculate_volatility (calculate_returns prices) periods = NaN"
    by (rule volatility_short)
next
  fix prices :: series and rf :: float64 and periods :: int
  assume a: "length prices \<le> 2 \<and> periods \<noteq> 0"
  with length_calculate_returns [of prices] have "length (calculate_returns prices) \<le> 1" by linarith
  with a show "calculate_sharpe_ratio (calculate_returns prices) rf periods = Inr NaN"
    by (simp add: sharpe_short)
next
  fix prices :: series
  assume "length prices < 20"
  then show "determine_trend prices 20 = Inr ''Insufficient Data''" by (rule determine_trend_short)
qed

theorem no_data_sentinels_witness:
  "length [Fin 10, Fin 11] \<le> 2 \<and> (252::int) \<noteq> 0 \<and> length [Fin 10, Fin 11] < 20
   \<and> calculate_returns [Fin 10, Fin 11] = [Fin (1 / 10)]
   \<and> calculate_volatility (calculate_returns [Fin 10, Fin 11]) 252 = NaN
   \<and> calculate_sharpe_ratio (calculate_returns [Fin 10, Fin 11]) (Fin (2 / 100)) 252 = Inr NaN
   \<and> determine_trend [Fin 10, Fin 11] 20 = Inr ''Insufficient Data''"
proof -
  note t = no_data_sentinels
  have h: "length [Fin 10, Fin 11] \<le> 2 \<and> (252::int) \<noteq> 0" by simp
  have h2: "length [Fin 10, Fin 11] < 20" by simp
  have r: "calculate_returns [Fin 10, Fin 11] = [Fin (1 / 10)]" by code_simp
  from t h have 1: "calculate_volatility (calculate_returns [Fin 10, Fin 11]) 252 = NaN"
    by blast
  from t h have 2: "calculate_sharpe_ratio (calculate_returns [Fin 10, Fin 11]) (Fin (2 / 100)) 252 = Inr NaN"
    by blast
  from t h2 have 3: "determine_trend [Fin 10, Fin 11] 20 = Inr ''Insufficient Data''"
    by blast
  from h h2 r 1 2 3 show ?thesis by blast
qed

section \<open>The Bollinger bands\<close>

text \<open>
  The statistics of a window. A window that \<open>trailing\<close> returns holds no NaN. When
  all its values are finite, the mean is finite and the standard deviation is the root
  of a sum of squares, a finite number that is not negative. When it holds an infinity,
  the sum is an infinity or NaN, and the deviation of that infinity from the mean is
  NaN, so the standard deviation is NaN.
\<close>

lemma fadd_NaN [simp]: "fadd NaN b = NaN" "fadd a NaN = NaN"
  by (simp_all add: fadd_def)

lemma fsub_NaN_right [simp]: "fsub a NaN = NaN"
  by (simp add: fsub_def fneg_def)














lemma fmul_square_finite:
  "is_finite d \<Longrightarrow> fmul d d = Fin (valof d * valof d)"
  by (cases d) (auto simp: fmul_def is_zero_def zerosign_def)



lemma nth_rolling_std:
  "i < length xs \<Longrightarrow>
   rolling_std w xs ! i = (case trailing w i xs of None \<Rightarrow> NaN | Some win \<Rightarrow> sample_std win)"
  by (simp add: rolling_std_def)





lemma col_close_rows: "col_close (frame_of_closes cs) = map Fin cs"
  by (simp add: frame_of_closes_def col_close_def row_at_def comp_def)

lemma sample_std_Fin:
  assumes len: "1 < length ps"
  shows "sample_std (map Fin ps) =
     Fin (sqrt (sum_list (map (\<lambda>p. (p - sum_list ps / real (length ps)) *
                                     (p - sum_list ps / real (length ps))) ps)
                / real (length ps - 1)))"
proof -
  define mu where "mu = sum_list ps / real (length ps)"
  define ss where "ss = sum_list (map (\<lambda>p. (p - mu) * (p - mu)) ps)"
  from len have pos: "0 < real (length ps)" by (cases ps) simp_all
  from len have pos1: "0 < real (length ps - 1)" by simp
  have m: "fdiv (fsum (map Fin ps)) (Fin (real (length ps))) = Fin mu"
    unfolding fsum_Fin mu_def using pos by (rule fdiv_Fin_pos)
  have sq: "map (\<lambda>y. fmul (fsub y (Fin mu)) (fsub y (Fin mu))) (map Fin ps) =
            map Fin (map (\<lambda>p. (p - mu) * (p - mu)) ps)"
    by (simp add: fmul_square_finite)
  have nn: "0 \<le> ss" unfolding ss_def by (rule sum_list_nonneg) auto
  have "fdiv (fsum (map Fin (map (\<lambda>p. (p - mu) * (p - mu)) ps))) (Fin (real (length ps - 1)))
        = Fin (ss / real (length ps - 1))"
    unfolding fsum_Fin ss_def using pos1 by (rule fdiv_Fin_pos)
  moreover have "0 \<le> ss / real (length ps - 1)" using nn pos1 by simp
  ultimately have "fsqrt (fdiv (fsum (map Fin (map (\<lambda>p. (p - mu) * (p - mu)) ps)))
                     (Fin (real (length ps - 1)))) = Fin (sqrt (ss / real (length ps - 1)))"
    by (simp add: fsqrt_def)
  moreover from len have "sample_std (map Fin ps) =
      fsqrt (fdiv (fsum (map Fin (map (\<lambda>p. (p - mu) * (p - mu)) ps))) (Fin (real (length ps - 1))))"
    unfolding sample_std_def Let_def length_map m sq by simp
  ultimately show ?thesis by (simp add: ss_def mu_def)
qed

lemma rolling_std_Fin:
  assumes "1 < w" "w \<le> Suc i" "i < length ps"
  shows "rolling_std w (map Fin ps) ! i = sample_std (map Fin (take w (drop (Suc i - w) ps)))"
  using assms by (simp add: nth_rolling_std trailing_Fin)

lemma full_window_stats:
  assumes "length cs = 20"
  shows "rolling_mean 20 (col_close (frame_of_closes cs)) ! 19 = Fin (sum_list cs / 20)"
    and "rolling_std 20 (col_close (frame_of_closes cs)) ! 19 =
         Fin (sqrt (sum_list (map (\<lambda>p. (p - sum_list cs / 20) * (p - sum_list cs / 20)) cs) / 19))"
  unfolding col_close_rows
  using rolling_mean_Fin [of 20 19 cs] rolling_std_Fin [of 20 19 cs] sample_std_Fin [of cs] assms
  by simp_all

lemma steady_stats:
  "rolling_mean 20 (col_close steady_frame) ! 19 = Fin 5"
  "rolling_std 20 (col_close steady_frame) ! 19 = Fin 0"
proof -
  have len: "length (replicate 20 (5::real)) = 20" by simp
  show "rolling_mean 20 (col_close steady_frame) ! 19 = Fin 5"
    unfolding steady_frame_def full_window_stats(1) [OF len] by (simp add: sum_list_replicate)
  show "rolling_std 20 (col_close steady_frame) ! 19 = Fin 0"
    unfolding steady_frame_def full_window_stats(2) [OF len] by (simp add: sum_list_replicate)
qed




lemma steady_bands_coincide:
  "map2 fadd (rolling_mean 20 (col_close steady_frame))
     (map (\<lambda>s. fmul s (Fin 2)) (rolling_std 20 (col_close steady_frame))) ! 19 = Fin 5"
  "map2 fsub (rolling_mean 20 (col_close steady_frame))
     (map (\<lambda>s. fmul s (Fin 2)) (rolling_std 20 (col_close steady_frame))) ! 19 = Fin 5"
proof -
  have len: "length (col_close steady_frame) = 20"
    by (simp add: steady_frame_def frame_of_closes_def col_close_def)
  show "map2 fadd (rolling_mean 20 (col_close steady_frame))
     (map (\<lambda>s. fmul s (Fin 2)) (rolling_std 20 (col_close steady_frame))) ! 19 = Fin 5"
    by (simp add: len steady_stats)
  show "map2 fsub (rolling_mean 20 (col_close steady_frame))
     (map (\<lambda>s. fmul s (Fin 2)) (rolling_std 20 (col_close steady_frame))) ! 19 = Fin 5"
    by (simp add: len steady_stats)
qed

section \<open>Formatting an amount\<close>











end
